theory Spec2Isabelle
  imports Complex_Main "HOL-Library.Sublist" "HOL-Library.Char_ord" "HOL-Library.List_Lexorder"
begin

section \<open>Python values and exceptions\<close>

text \<open>
  The four scripts of the repository (\<^verbatim>\<open>cameras.py\<close>, \<^verbatim>\<open>check_photos.py\<close>,
  \<^verbatim>\<open>control_points_parser.py\<close>, \<^verbatim>\<open>plan_fact_parser.py\<close>) share one client class,
  \<^verbatim>\<open>DashboardstroiClient\<close>, and work on decoded JSON documents. A decoded document is a
  value of type \<open>py\<close>: \<^verbatim>\<open>None\<close>, a bool, an int, a str, a list or a dict (an association
  list read with \<open>map_of\<close>; the decoder keeps one entry per key). \<open>PDate\<close> is a
  \<^verbatim>\<open>datetime.date\<close>, by its ordinal. Floats do not occur in what the claims are about
  and are left out. Strings are byte strings; the texts used here are ASCII.
\<close>

datatype py =
    PNone
  | PBool bool
  | PInt int
  | PStr string
  | PList "py list"
  | PDict "(string \<times> py) list"
  | PDate int

text \<open>
  The exceptions the code can raise. The two raised by \<^verbatim>\<open>authorize\<close> are plain
  \<^verbatim>\<open>Exception\<close>s told apart by their message: \<open>AuthFailed\<close> is
  \<^verbatim>\<open>Exception("Oshibka avtorizatsii")\<close> (authorization error) and \<open>TokenMissing\<close> is
  \<^verbatim>\<open>Exception("Token ne najden v URL")\<close> (token not found in the URL).
\<close>

datatype exn =
    AttributeError
  | KeyError
  | TypeError
  | IndexError
  | JSONDecodeError
  | UnboundLocalError
  | AuthFailed
  | TokenMissing

text \<open>\<^verbatim>\<open>bool(x)\<close>: what \<^verbatim>\<open>if x:\<close> and \<^verbatim>\<open>not x\<close> test.\<close>

fun truthy :: "py \<Rightarrow> bool" where
  "truthy PNone = False"
| "truthy (PBool b) = b"
| "truthy (PInt n) = (n \<noteq> 0)"
| "truthy (PStr s) = (s \<noteq> [])"
| "truthy (PList xs) = (xs \<noteq> [])"
| "truthy (PDict kvs) = (kvs \<noteq> [])"
| "truthy (PDate d) = True"

text \<open>
  \<^verbatim>\<open>d.get(k, default)\<close>: only a dict has the method; on any other value the call raises
  \<^verbatim>\<open>AttributeError\<close>.
\<close>

fun py_get :: "py \<Rightarrow> string \<Rightarrow> py \<Rightarrow> exn + py" where
  "py_get (PDict kvs) k dflt = Inr (case map_of kvs k of Some v \<Rightarrow> v | None \<Rightarrow> dflt)"
| "py_get _ k dflt = Inl AttributeError"

text \<open>\<^verbatim>\<open>d[k]\<close> with a string key: \<^verbatim>\<open>KeyError\<close> on a dict without the key,
  \<^verbatim>\<open>TypeError\<close> on a value that is not a dict.\<close>

fun py_index :: "py \<Rightarrow> string \<Rightarrow> exn + py" where
  "py_index (PDict kvs) k = (case map_of kvs k of Some v \<Rightarrow> Inr v | None \<Rightarrow> Inl KeyError)"
| "py_index _ k = Inl TypeError"

section \<open>Strings\<close>

text \<open>
  \<^verbatim>\<open>sub in s\<close> on two strings is the contiguous-substring test, \<^const>\<open>sublist\<close>;
  \<^verbatim>\<open>s.startswith(p)\<close> is \<^const>\<open>prefix\<close>.
\<close>

definition py_in_str :: "string \<Rightarrow> string \<Rightarrow> bool" where
  "py_in_str sub s = sublist sub s"

definition startswith :: "string \<Rightarrow> string \<Rightarrow> bool" where
  "startswith s p = prefix p s"

text \<open>\<^verbatim>\<open>s.split(sep)\<close> with a one-character separator: never an empty list.\<close>

fun split_on :: "char \<Rightarrow> string \<Rightarrow> string list" where
  "split_on sep [] = [[]]"
| "split_on sep (c # cs) =
     (if c = sep then [] # split_on sep cs
      else (case split_on sep cs of
              w # ws \<Rightarrow> (c # w) # ws
            | [] \<Rightarrow> [[c]]))"






section \<open>\<^verbatim>\<open>urllib.parse\<close>\<close>

text \<open>
  The library functions \<^verbatim>\<open>authorize\<close> calls, modelled on byte strings.
  \<^verbatim>\<open>unquote\<close> replaces every \<open>%XY\<close> with two hexadecimal digits by the byte they
  name and leaves any other \<open>%\<close> where it is. (Python then decodes the bytes as UTF-8,
  replacing invalid sequences; on ASCII results this is the identity.)
\<close>

definition hex_val :: "char \<Rightarrow> nat option" where
  "hex_val c =
     (let n = (of_char c :: nat) in
        if 48 \<le> n \<and> n \<le> 57 then Some (n - 48)
        else if 65 \<le> n \<and> n \<le> 70 then Some (n - 55)
        else if 97 \<le> n \<and> n \<le> 102 then Some (n - 87)
        else None)"

fun unquote :: "string \<Rightarrow> string" where
  "unquote (c # a # b # rest) =
     (if c = CHR ''%'' then
        (case (hex_val a, hex_val b) of
           (Some h, Some l) \<Rightarrow> char_of (16 * h + l) # unquote rest
         | _ \<Rightarrow> c # unquote (a # b # rest))
      else c # unquote (a # b # rest))"
| "unquote cs = cs"

text \<open>\<^verbatim>\<open>unquote_plus\<close>: \<open>+\<close> becomes a space, then \<^verbatim>\<open>unquote\<close>.\<close>

definition unquote_plus :: "string \<Rightarrow> string" where
  "unquote_plus s = unquote (map (\<lambda>c. if c = CHR ''+'' then CHR '' '' else c) s)"

text \<open>
  \<^verbatim>\<open>urlparse(url).query\<close>: the text after the first \<open>?\<close> of the URL cut at its first
  \<open>#\<close>. (The scheme and the network location, split off first by the library, hold neither
  character.)
\<close>

definition url_query :: "string \<Rightarrow> string" where
  "url_query u =
     (let v = takeWhile (\<lambda>c. c \<noteq> CHR ''#'') u
      in if CHR ''?'' \<in> set v then tl (dropWhile (\<lambda>c. c \<noteq> CHR ''?'') v) else [])"

text \<open>
  \<^verbatim>\<open>parse_qsl(qs)\<close> with its defaults: the fields are separated by \<open>&\<close>; a field
  without \<open>=\<close> or with an empty value is dropped; name and value are decoded with
  \<open>+\<close> as a space.
\<close>

definition parse_field :: "string \<Rightarrow> (string \<times> string) option" where
  "parse_field nv =
     (if CHR ''='' \<in> set nv then
        (let name = takeWhile (\<lambda>c. c \<noteq> CHR ''='') nv;
             val = tl (dropWhile (\<lambda>c. c \<noteq> CHR ''='') nv)
         in if val \<noteq> [] then Some (unquote_plus name, unquote_plus val) else None)
      else None)"

definition parse_qsl :: "string \<Rightarrow> (string \<times> string) list" where
  "parse_qsl qs = List.map_filter parse_field (split_on CHR ''&'' qs)"

text \<open>
  \<^verbatim>\<open>parse_qs(parsed.query).get("token", [None])[0]\<close>: the first value of the field
  named \<open>token\<close>, \<open>None\<close> when there is none.
\<close>

definition token_param :: "string \<Rightarrow> string option" where
  "token_param u = map_of (parse_qsl (url_query u)) ''token''"

text \<open>
  The host of a URL as it is written there, the way \<^verbatim>\<open>urlsplit\<close> finds it: after a
  scheme (a letter, then letters, digits, \<open>+\<close>, \<open>-\<close>, \<open>.\<close>, up to the first
  \<open>:\<close>) and \<open>//\<close>, the network location runs to the first \<open>/\<close>, \<open>?\<close> or
  \<open>#\<close>; the host is what follows its last \<open>@\<close>, up to the port's \<open>:\<close> (for a
  bracketed host, what stands between the brackets). No source file computes it: the code's
  check reads the whole URL. It is defined to state what the check does not test.
\<close>

definition is_alpha :: "char \<Rightarrow> bool" where
  "is_alpha c =
     (let n = (of_char c :: nat) in (65 \<le> n \<and> n \<le> 90) \<or> (97 \<le> n \<and> n \<le> 122))"

definition scheme_char :: "char \<Rightarrow> bool" where
  "scheme_char c =
     (let n = (of_char c :: nat)
      in is_alpha c \<or> (48 \<le> n \<and> n \<le> 57) \<or> c = CHR ''+'' \<or> c = CHR ''-'' \<or> c = CHR ''.'')"

definition after_scheme :: "string \<Rightarrow> string" where
  "after_scheme u =
     (let s = takeWhile (\<lambda>c. c \<noteq> CHR '':'') u
      in if CHR '':'' \<in> set u \<and> s \<noteq> [] \<and> is_alpha (hd s) \<and> list_all scheme_char s
         then drop (length s + 1) u else u)"

definition url_netloc :: "string \<Rightarrow> string" where
  "url_netloc u =
     (let r = after_scheme u
      in if prefix ''//'' r
         then takeWhile (\<lambda>c. c \<noteq> CHR ''/'' \<and> c \<noteq> CHR ''?'' \<and> c \<noteq> CHR ''#'') (drop 2 r)
         else [])"

definition url_host :: "string \<Rightarrow> string" where
  "url_host u =
     (let hostinfo = rev (takeWhile (\<lambda>c. c \<noteq> CHR ''@'') (rev (url_netloc u)))
      in if CHR ''['' \<in> set hostinfo
         then takeWhile (\<lambda>c. c \<noteq> CHR '']'') (tl (dropWhile (\<lambda>c. c \<noteq> CHR ''['') hostinfo))
         else takeWhile (\<lambda>c. c \<noteq> CHR '':'') hostinfo)"

section \<open>The session: \<^verbatim>\<open>DashboardstroiClient\<close>\<close>

text \<open>
  The two fields of the client that change: the bearer token and the CSRF token, both
  \<^verbatim>\<open>None\<close> after \<^verbatim>\<open>__init__\<close>.
\<close>

record client =
  token :: "string option"
  xsrf_token :: "string option"

definition init_client :: client where
  "init_client = \<lparr>token = None, xsrf_token = None\<rparr>"

definition base_url :: string where
  "base_url = ''https://dashboard-stroi.mos.ru''"

definition target_domain :: string where
  "target_domain = ''dashboard-stroi.mos.ru''"

text \<open>
  \<^verbatim>\<open>authorize\<close>, from the outcome of its three requests: \<open>login_url\<close> is
  \<^verbatim>\<open>login_response.url\<close>, the URL the password POST ended at after its redirects, and
  \<open>xsrf_cookie\<close> is \<^verbatim>\<open>self.session.cookies.get("XSRF-TOKEN")\<close>. The result is the
  exception raised or the client with its tokens stored.
\<close>

definition authorize :: "string \<Rightarrow> string option \<Rightarrow> client \<Rightarrow> exn + client" where
  "authorize login_url xsrf_cookie c =
     (if \<not> py_in_str target_domain login_url then Inl AuthFailed
      else
        (case token_param login_url of
           None \<Rightarrow> Inl TokenMissing
         | Some token_par \<Rightarrow>
             if token_par = [] then Inl TokenMissing
             else Inr (c\<lparr>token := Some (unquote token_par),
                         xsrf_token :=
                           (case xsrf_cookie of
                              None \<Rightarrow> xsrf_token c
                            | Some x \<Rightarrow> if x \<noteq> [] then Some (unquote_plus x) else xsrf_token c)\<rparr>)))"

text \<open>
  \<^verbatim>\<open>get\<close> and \<^verbatim>\<open>post\<close> build the request the session sends: the caller's
  \<^verbatim>\<open>headers\<close> (a dict, empty when the caller gives none), the two token headers when the
  tokens are truthy, and the two defaults through \<^verbatim>\<open>setdefault\<close>.
\<close>

record request =
  url :: string
  headers :: "string \<Rightarrow> string option"

definition setdefault :: "(string \<Rightarrow> string option) \<Rightarrow> string \<Rightarrow> string \<Rightarrow> (string \<Rightarrow> string option)" where
  "setdefault h k v = (case h k of None \<Rightarrow> h(k \<mapsto> v) | Some _ \<Rightarrow> h)"

definition token_headers :: "client \<Rightarrow> (string \<Rightarrow> string option) \<Rightarrow> (string \<Rightarrow> string option)" where
  "token_headers c h =
     (let h1 = (case token c of
                  None \<Rightarrow> h
                | Some t \<Rightarrow> if t \<noteq> [] then h(''Authorization'' \<mapsto> ''Bearer '' @ t) else h)
      in (case xsrf_token c of
            None \<Rightarrow> h1
          | Some x \<Rightarrow> if x \<noteq> [] then h1(''X-XSRF-TOKEN'' \<mapsto> x) else h1))"

definition resolve :: "string \<Rightarrow> string" where
  "resolve path = (if startswith path ''/'' then base_url @ path else path)"

definition get :: "client \<Rightarrow> string \<Rightarrow> (string \<Rightarrow> string option) \<Rightarrow> request" where
  "get c path hdrs =
     \<lparr>url = resolve path,
      headers = setdefault
                  (setdefault (token_headers c hdrs) ''Accept'' ''application/json, text/html, */*'')
                  ''X-Requested-With'' ''XMLHttpRequest''\<rparr>"

definition post :: "client \<Rightarrow> string \<Rightarrow> (string \<Rightarrow> string option) \<Rightarrow> request" where
  "post c path hdrs =
     \<lparr>url = resolve path,
      headers = setdefault
                  (setdefault (token_headers c hdrs) ''Accept'' ''application/json'')
                  ''X-Requested-With'' ''XMLHttpRequest''\<rparr>"

section \<open>HTTP responses\<close>

text \<open>
  What the code reads of a \<^verbatim>\<open>requests.Response\<close>: the status code and the result of
  \<^verbatim>\<open>response.json()\<close>, which is \<open>None\<close> here when the body is not valid JSON (the call
  raises). The response a call receives is an input of the model of that call.
\<close>

record response =
  status_code :: int
  json :: "py option"

section \<open>Catalog client\<close>

text \<open>\<^verbatim>\<open>get_json\<close>: the decode is guarded, every failure gives \<^verbatim>\<open>None\<close>.\<close>

definition get_json :: "response \<Rightarrow> py" where
  "get_json r =
     (if status_code r = 200 then
        (case json r of Some v \<Rightarrow> v | None \<Rightarrow> PNone)
      else PNone)"

text \<open>
  \<^verbatim>\<open>get_catalog_objects\<close>: on status 200 the body is decoded outside any
  \<^verbatim>\<open>try\<close>, then \<^verbatim>\<open>data.get("objects", {}).get("data", [])\<close>; any other status gives
  the empty list.
\<close>

definition get_catalog_objects :: "response \<Rightarrow> exn + py" where
  "get_catalog_objects r =
     (if status_code r = 200 then
        (case json r of
           None \<Rightarrow> Inl JSONDecodeError
         | Some data \<Rightarrow>
             (case py_get data ''objects'' (PDict []) of
                Inl e \<Rightarrow> Inl e
              | Inr objs \<Rightarrow> py_get objs ''data'' (PList [])))
      else Inr (PList []))"

text \<open>
  \<^verbatim>\<open>get_manager_name\<close> (\<^verbatim>\<open>control_points_parser.py\<close>, annotated \<^verbatim>\<open>-> str\<close>): on status
  200 it returns \<^verbatim>\<open>data.get("object", {}).get("project_manager", {}).get("name", <sentinel>)\<close>,
  and \<^verbatim>\<open>None\<close> when the decode or one of the \<^verbatim>\<open>get\<close> calls raises; on any other status
  it returns \<^verbatim>\<open>None\<close>. The sentinel is the Russian text for "no data", given here by its
  UTF-8 bytes.
\<close>

definition no_data :: string where
  "no_data = map char_of
     [208, 157, 208, 181, 209, 130, 32, 208, 180, 208, 176, 208, 189, 208, 189, 209, 139,
      209, 133 :: nat]"

definition get_manager_name :: "response \<Rightarrow> py" where
  "get_manager_name r =
     (if status_code r = 200 then
        (case json r of
           None \<Rightarrow> PNone
         | Some data \<Rightarrow>
             (case py_get data ''object'' (PDict []) of
                Inl e \<Rightarrow> PNone
              | Inr ob \<Rightarrow>
                  (case py_get ob ''project_manager'' (PDict []) of
                     Inl e \<Rightarrow> PNone
                   | Inr pm \<Rightarrow>
                       (case py_get pm ''name'' (PStr no_data) of
                          Inl e \<Rightarrow> PNone
                        | Inr n \<Rightarrow> n))))
      else PNone)"

text \<open>\<^verbatim>\<open>get_etapi_data\<close>: the decoded body on status 200, \<^verbatim>\<open>None\<close> on any other status
  and on a decode failure.\<close>

definition get_etapi_data :: "response \<Rightarrow> py" where
  "get_etapi_data r =
     (if status_code r \<noteq> 200 then PNone
      else (case json r of Some data \<Rightarrow> data | None \<Rightarrow> PNone))"

text \<open>\<^verbatim>\<open>get_dashboard_data\<close> of \<^verbatim>\<open>control_points_parser.py\<close>: the reference URL into the
  work ledger, \<^verbatim>\<open>data.get("object", {}).get("suid_ksg_url")\<close>, or \<^verbatim>\<open>None\<close>.\<close>

definition get_dashboard_data_suid :: "response \<Rightarrow> py" where
  "get_dashboard_data_suid r =
     (if status_code r = 200 then
        (case json r of
           None \<Rightarrow> PNone
         | Some data \<Rightarrow>
             (case py_get data ''object'' (PDict []) of
                Inl e \<Rightarrow> PNone
              | Inr ob \<Rightarrow>
                  (case py_get ob ''suid_ksg_url'' PNone of
                     Inl e \<Rightarrow> PNone
                   | Inr v \<Rightarrow> v)))
      else PNone)"

section \<open>Control-point collection: \<^verbatim>\<open>collect_etapi_data\<close>\<close>

text \<open>
  The answers of the dashboard are inputs: for the object at position \<open>idx\<close> of the
  catalog, the response to the manager-name request, to each attempt of the control-point
  request, and to the dashboard request. What the run does besides building rows is kept as
  a list of events: the requests it sends and the seconds it sleeps.
\<close>

record env =
  manager_response :: "nat \<Rightarrow> response"
  etapi_response :: "nat \<Rightarrow> nat \<Rightarrow> response"
  dashboard_response :: "nat \<Rightarrow> response"
  run_date :: int

datatype event =
    ManagerGet
  | EtapiGet nat
  | DashboardGet
  | Sleep real

definition max_retries :: nat where
  "max_retries = 3"

text \<open>
  The retry loop, \<^verbatim>\<open>for attempt in range(max_retries)\<close>: \<open>n\<close> attempts are left and the
  next one has the index \<open>attempt\<close>. A result other than \<^verbatim>\<open>None\<close> leaves the loop; after
  a failed attempt the loop sleeps \<^verbatim>\<open>(attempt + 1) * 2\<close> seconds, also after the last one.
\<close>

fun retry_loop :: "(nat \<Rightarrow> response) \<Rightarrow> nat \<Rightarrow> nat \<Rightarrow> py \<times> event list" where
  "retry_loop resp attempt 0 = (PNone, [])"
| "retry_loop resp attempt (Suc n) =
     (let etapi = get_etapi_data (resp attempt)
      in if etapi \<noteq> PNone then (etapi, [EtapiGet attempt])
         else (case retry_loop resp (Suc attempt) n of
                 (etapi', evs) \<Rightarrow>
                   (etapi', EtapiGet attempt # Sleep (real ((attempt + 1) * 2)) # evs)))"

definition fetch_etapi :: "(nat \<Rightarrow> response) \<Rightarrow> py \<times> event list" where
  "fetch_etapi resp = retry_loop resp 0 max_retries"

text \<open>\<^verbatim>\<open>for x in v\<close>: a list gives its items, a dict its keys, a string its characters;
  any other value is not iterable.\<close>

fun py_iter :: "py \<Rightarrow> exn + py list" where
  "py_iter (PList xs) = Inr xs"
| "py_iter (PDict kvs) = Inr (map (\<lambda>kv. PStr (fst kv)) kvs)"
| "py_iter (PStr s) = Inr (map (\<lambda>c. PStr [c]) s)"
| "py_iter _ = Inl TypeError"

text \<open>A row is the dict the code builds, as an association list.\<close>

type_synonym row = "(string \<times> py) list"

text \<open>The fields of the catalog object that every row of the object carries.\<close>

record object_info =
  info_id :: py
  info_name :: py
  info_developer :: py
  info_manager :: py
  info_directive_date :: py

definition no_points_row :: "object_info \<Rightarrow> int \<Rightarrow> row" where
  "no_points_row ob d =
     [(''object_id'', info_id ob),
      (''object_name'', info_name ob),
      (''status'', PStr ''no_control_points''),
      (''developer'', info_developer ob),
      (''project_manager'', info_manager ob),
      (''name'', PNone),
      (''plan_finish_date'', PNone),
      (''fact_finish_date'', PNone),
      (''plan'', PNone),
      (''fact'', PNone),
      (''created_at'', PNone),
      (''updated_at'', PNone),
      (''deleted_at'', PNone),
      (''planned_commissioning_directive_date'', info_directive_date ob),
      (''plan_start_date'', PNone),
      (''fact_start_date'', PNone),
      (''plan_progress'', PNone),
      (''fact_progress'', PNone),
      (''readiness'', PNone),
      (''color'', PNone),
      (''today'', PDate d),
      (''suid_url'', PNone)]"

text \<open>The row of one control point; \<^verbatim>\<open>point.get\<close> raises when the point is not a dict.\<close>

definition point_row :: "object_info \<Rightarrow> int \<Rightarrow> py \<Rightarrow> string \<Rightarrow> py \<Rightarrow> exn + row" where
  "point_row ob d suid_url status point =
     (case point of
        PDict kvs \<Rightarrow>
          (let field = (\<lambda>k. case map_of kvs k of Some v \<Rightarrow> v | None \<Rightarrow> PNone) in
           Inr [(''object_id'', info_id ob),
                (''object_name'', info_name ob),
                (''status'', PStr status),
                (''name'', field ''name''),
                (''developer'', info_developer ob),
                (''project_manager'', info_manager ob),
                (''plan_finish_date'', field ''plan_finish_date''),
                (''fact_finish_date'', field ''fact_finish_date''),
                (''plan'', field ''plan''),
                (''fact'', field ''fact''),
                (''created_at'', field ''created_at''),
                (''updated_at'', field ''updated_at''),
                (''deleted_at'', field ''deleted_at''),
                (''planned_commissioning_directive_date'', info_directive_date ob),
                (''plan_start_date'', field ''plan_start_date''),
                (''fact_start_date'', field ''fact_start_date''),
                (''plan_progress'', field ''plan_progress''),
                (''fact_progress'', field ''fact_progress''),
                (''readiness'', field ''readiness''),
                (''color'', field ''color''),
                (''today'', PDate d),
                (''suid_url'', suid_url)])
      | _ \<Rightarrow> Inl AttributeError)"

fun point_rows :: "object_info \<Rightarrow> int \<Rightarrow> py \<Rightarrow> string \<Rightarrow> py list \<Rightarrow> exn + row list" where
  "point_rows ob d suid_url status [] = Inr []"
| "point_rows ob d suid_url status (point # points) =
     (case point_row ob d suid_url status point of
        Inl e \<Rightarrow> Inl e
      | Inr r \<Rightarrow>
          (case point_rows ob d suid_url status points of
             Inl e \<Rightarrow> Inl e
           | Inr rs \<Rightarrow> Inr (r # rs)))"

text \<open>\<^verbatim>\<open>c.get(k, {}).get("data", [])\<close> on the control-point document.\<close>

definition points_data :: "py \<Rightarrow> string \<Rightarrow> exn + py" where
  "points_data control_points k =
     (case py_get control_points k (PDict []) of
        Inl e \<Rightarrow> Inl e
      | Inr part \<Rightarrow> py_get part ''data'' (PList []))"

text \<open>
  The part of the loop body after \<^verbatim>\<open>if not etapi: continue\<close>, for a truthy \<open>etapi\<close>:
  the single \<open>no_control_points\<close> row when both lists are falsy, otherwise the dashboard
  request and one row per point, the points in progress first. Each path ends with a sleep
  of 0.7 seconds.
\<close>

definition etapi_rows :: "env \<Rightarrow> nat \<Rightarrow> object_info \<Rightarrow> py \<Rightarrow> exn + row list \<times> event list" where
  "etapi_rows e idx ob etapi =
     (case py_get etapi ''control_points'' (PDict []) of
        Inl x \<Rightarrow> Inl x
      | Inr control_points \<Rightarrow>
          (case points_data control_points ''in_progress'' of
             Inl x \<Rightarrow> Inl x
           | Inr in_progress_data \<Rightarrow>
               (case points_data control_points ''complete'' of
                  Inl x \<Rightarrow> Inl x
                | Inr complete_data \<Rightarrow>
                    if \<not> truthy in_progress_data \<and> \<not> truthy complete_data
                    then Inr ([no_points_row ob (run_date e)], [Sleep (7 / 10)])
                    else
                      (let suid_url = get_dashboard_data_suid (dashboard_response e idx) in
                       (case py_iter in_progress_data of
                          Inl x \<Rightarrow> Inl x
                        | Inr ps1 \<Rightarrow>
                            (case point_rows ob (run_date e) suid_url ''in_progress'' ps1 of
                               Inl x \<Rightarrow> Inl x
                             | Inr rows1 \<Rightarrow>
                                 (case py_iter complete_data of
                                    Inl x \<Rightarrow> Inl x
                                  | Inr ps2 \<Rightarrow>
                                      (case point_rows ob (run_date e) suid_url ''complete'' ps2 of
                                         Inl x \<Rightarrow> Inl x
                                       | Inr rows2 \<Rightarrow>
                                           Inr (rows1 @ rows2,
                                                [DashboardGet, Sleep (7 / 10)])))))))))"

text \<open>
  The two dicts built before the loop map an object id to its developer name and to its
  directive date; a later object with the same id replaces an earlier one, so the lookup
  reads the reversed list.
\<close>

fun id_map :: "(py \<Rightarrow> exn + py) \<Rightarrow> py list \<Rightarrow> exn + (py \<times> py) list" where
  "id_map f [] = Inr []"
| "id_map f (obj # objs) =
     (case py_index obj ''id'' of
        Inl e \<Rightarrow> Inl e
      | Inr i \<Rightarrow>
          (case f obj of
             Inl e \<Rightarrow> Inl e
           | Inr v \<Rightarrow>
               (case id_map f objs of
                  Inl e \<Rightarrow> Inl e
                | Inr m \<Rightarrow> Inr ((i, v) # m))))"

definition developer_of :: "py \<Rightarrow> exn + py" where
  "developer_of obj =
     (case py_get obj ''developer'' (PDict []) of
        Inl e \<Rightarrow> Inl e
      | Inr d \<Rightarrow> py_get d ''name'' PNone)"

definition directive_date_of :: "py \<Rightarrow> exn + py" where
  "directive_date_of obj = py_get obj ''planned_commissioning_directive_date'' PNone"

definition dict_get :: "(py \<times> py) list \<Rightarrow> py \<Rightarrow> py" where
  "dict_get m k = (case map_of (rev m) k of Some v \<Rightarrow> v | None \<Rightarrow> PNone)"

text \<open>
  One pass of the loop over the catalog, for the object at position \<open>idx\<close>; \<open>cash\<close>
  is the dict of manager names already fetched (the newest entry first). The result is the
  rows the object adds, the dict, and the events.
\<close>

definition object_rows ::
  "env \<Rightarrow> (py \<times> py) list \<Rightarrow> (py \<times> py) list \<Rightarrow> nat \<Rightarrow> py \<Rightarrow> (py \<times> py) list
     \<Rightarrow> exn + row list \<times> (py \<times> py) list \<times> event list" where
  "object_rows e developer_map directive_map idx obj cash =
     (case py_index obj ''id'' of
        Inl x \<Rightarrow> Inl x
      | Inr oid \<Rightarrow>
          (let known = (map_of cash oid \<noteq> None);
               cash1 = (if known then cash
                        else (oid, get_manager_name (manager_response e idx)) # cash);
               ev1 = (if known then [] else [ManagerGet])
           in (case py_index obj ''name'' of
                 Inl x \<Rightarrow> Inl x
               | Inr oname \<Rightarrow>
                   (let ob = \<lparr>info_id = oid, info_name = oname,
                              info_developer = dict_get developer_map oid,
                              info_manager = (case map_of cash1 oid of Some m \<Rightarrow> m | None \<Rightarrow> PNone),
                              info_directive_date = dict_get directive_map oid\<rparr>
                    in (case fetch_etapi (etapi_response e idx) of
                          (etapi, ev2) \<Rightarrow>
                            if \<not> truthy etapi then Inr ([], cash1, ev1 @ ev2)
                            else (case etapi_rows e idx ob etapi of
                                    Inl x \<Rightarrow> Inl x
                                  | Inr (rows, ev3) \<Rightarrow> Inr (rows, cash1, ev1 @ ev2 @ ev3)))))))"

fun collect_loop ::
  "env \<Rightarrow> (py \<times> py) list \<Rightarrow> (py \<times> py) list \<Rightarrow> nat \<Rightarrow> py list \<Rightarrow> (py \<times> py) list
     \<Rightarrow> exn + row list \<times> event list" where
  "collect_loop e developer_map directive_map idx [] cash = Inr ([], [])"
| "collect_loop e developer_map directive_map idx (obj # objs) cash =
     (case object_rows e developer_map directive_map idx obj cash of
        Inl x \<Rightarrow> Inl x
      | Inr (rows, cash1, evs) \<Rightarrow>
          (case collect_loop e developer_map directive_map (Suc idx) objs cash1 of
             Inl x \<Rightarrow> Inl x
           | Inr (rows', evs') \<Rightarrow> Inr (rows @ rows', evs @ evs')))"

definition collect_etapi_data :: "env \<Rightarrow> py list \<Rightarrow> exn + row list \<times> event list" where
  "collect_etapi_data e objects =
     (case id_map developer_of objects of
        Inl x \<Rightarrow> Inl x
      | Inr developer_map \<Rightarrow>
          (case id_map directive_date_of objects of
             Inl x \<Rightarrow> Inl x
           | Inr directive_map \<Rightarrow> collect_loop e developer_map directive_map 0 objects []))"


section \<open>Reconciliation: the main block of \<^verbatim>\<open>control_points_parser.py\<close>\<close>

text \<open>
  The rows of the data frame \<^verbatim>\<open>df_new\<close>, with the columns the reconciliation reads and
  writes. The two finish dates are the columns after
  \<^verbatim>\<open>pd.to_datetime(..., errors="coerce").dt.date\<close>: a date (by its ordinal), or \<open>None\<close>
  for the missing value that a null or unparsable text becomes. \<open>today\<close> is
  \<^verbatim>\<open>datetime.now().date()\<close>, never missing. \<open>control_point_comparsion\<close> is the
  free-text classification: missing, or one of the texts the code writes.
\<close>

datatype classification =
    ExonObject        \<comment> \<open>the text for "exon object"\<close>
  | WorkNotFound      \<comment> \<open>the text for "work not found"\<close>

record df_row =
  object_id :: py
  status :: string
  name :: py
  plan_finish_date :: "int option"
  fact_finish_date :: "int option"
  today :: int
  suid_url :: py
  control_point_comparsion :: "classification option"
  suid_start :: py
  suid_end :: py
  fact_end_date_suid :: py

text \<open>
  Comparing two columns of Python objects goes element by element, and a comparison with a
  missing value is false, for \<open>==\<close> as for \<open><=\<close>.
\<close>

definition series_eq :: "int option list \<Rightarrow> int option list \<Rightarrow> bool list" where
  "series_eq xs ys =
     map (\<lambda>(x, y). case x of None \<Rightarrow> False
                    | Some a \<Rightarrow> (case y of None \<Rightarrow> False | Some b \<Rightarrow> a = b)) (zip xs ys)"

definition series_le :: "int option list \<Rightarrow> int option list \<Rightarrow> bool list" where
  "series_le xs ys =
     map (\<lambda>(x, y). case x of None \<Rightarrow> False
                    | Some a \<Rightarrow> (case y of None \<Rightarrow> False | Some b \<Rightarrow> a \<le> b)) (zip xs ys)"

text \<open>\<^verbatim>\<open>np.where(cond, a, b)\<close> on three columns of one length.\<close>

definition np_where :: "bool list \<Rightarrow> bool list \<Rightarrow> bool list \<Rightarrow> bool list" where
  "np_where cond a b = map (\<lambda>(c, x, y). if c then x else y) (zip cond (zip a b))"

text \<open>
  The column \<^verbatim>\<open>is_exceeded\<close>:
  \<^verbatim>\<open>np.where(status == "no_control_points", True, np.where(plan == fact, False, plan <= today))\<close>,
  the scalars standing for constant columns.
\<close>

definition is_exceeded :: "df_row list \<Rightarrow> bool list" where
  "is_exceeded df =
     np_where (map (\<lambda>r. status r = ''no_control_points'') df)
       (replicate (length df) True)
       (np_where (series_eq (map plan_finish_date df) (map fact_finish_date df))
          (replicate (length df) False)
          (series_le (map plan_finish_date df) (map (\<lambda>r. Some (today r)) df)))"



subsection \<open>The work ledger\<close>













section \<open>Photo check: \<^verbatim>\<open>get_photo_status\<close> (\<^verbatim>\<open>check_photos.py\<close>)\<close>














section \<open>Plan/fact export: \<^verbatim>\<open>plan_fact_parser.py\<close>\<close>

text \<open>
  \<^verbatim>\<open>get_dashboard_data\<close> of \<^verbatim>\<open>plan_fact_parser.py\<close>: the decoded document on status 200;
  after a decode failure it prints and falls off the end of the function, as it does on any
  other status, so it returns \<^verbatim>\<open>None\<close>.
\<close>

definition get_dashboard_data :: "response \<Rightarrow> py" where
  "get_dashboard_data r =
     (if status_code r = 200 then (case json r of Some data \<Rightarrow> data | None \<Rightarrow> PNone)
      else PNone)"

text \<open>
  \<^verbatim>\<open>extract_rows\<close>. Every row carries the id, name and code of the object; a stage adds
  one row with its plan and fact numbers and one row for each child that is a dict with the
  keys \<open>view_name\<close> and \<open>fact_oiv\<close>. (The column \<open>link\<close>, a fixed prefix followed by
  the id, is left out.)
\<close>

definition child_row :: "py \<Rightarrow> py \<Rightarrow> py \<Rightarrow> py \<Rightarrow> row option" where
  "child_row obj_id obj_name obj_uin child =
     (case child of
        PDict kvs \<Rightarrow>
          (case map_of kvs ''view_name'' of
             None \<Rightarrow> None
           | Some view_name \<Rightarrow>
               (case map_of kvs ''fact_oiv'' of
                  None \<Rightarrow> None
                | Some fact_oiv \<Rightarrow>
                    Some [(''id'', obj_id), (''name'', obj_name), (''uin'', obj_uin),
                          (''view_name'', view_name),
                          (''fact'', fact_oiv),
                          (''plan'', PNone),
                          (''fact_delta_week'', PNone), (''fact_delta_month'', PNone),
                          (''plan_delta_week'', PNone), (''plan_delta_month'', PNone)]))
      | _ \<Rightarrow> None)"

definition children_of :: "py \<Rightarrow> py list" where
  "children_of children =
     (case children of
        PList xs \<Rightarrow> xs
      | PDict kvs \<Rightarrow> map snd kvs
      | _ \<Rightarrow> [])"

definition stage_rows :: "py \<Rightarrow> py \<Rightarrow> py \<Rightarrow> py \<Rightarrow> exn + row list" where
  "stage_rows obj_id obj_name obj_uin stage =
     (case py_get stage ''oiv'' (PDict []) of
        Inl e \<Rightarrow> Inl e
      | Inr oiv \<Rightarrow>
          (case oiv of
             PDict okvs \<Rightarrow>
               (case stage of
                  PDict skvs \<Rightarrow>
                    (let ofield = (\<lambda>k. case map_of okvs k of Some v \<Rightarrow> v | None \<Rightarrow> PNone);
                         sfield = (\<lambda>k dflt. case map_of skvs k of Some v \<Rightarrow> v | None \<Rightarrow> dflt)
                     in Inr ([(''id'', obj_id), (''name'', obj_name), (''uin'', obj_uin),
                              (''view_name'', sfield ''view_name'' PNone),
                              (''fact'', ofield ''fact''),
                              (''plan'', ofield ''plan''),
                              (''fact_delta_week'', ofield ''delta_fact_week''),
                              (''fact_delta_month'', ofield ''delta_fact_month''),
                              (''plan_delta_week'', ofield ''delta_plan_week''),
                              (''plan_delta_month'', ofield ''delta_plan_month'')]
                             # List.map_filter (child_row obj_id obj_name obj_uin)
                                 (children_of (sfield ''children'' (PList [])))))
                | _ \<Rightarrow> Inl AttributeError)
           | _ \<Rightarrow> Inl AttributeError))"

fun stages_rows :: "py \<Rightarrow> py \<Rightarrow> py \<Rightarrow> py list \<Rightarrow> exn + row list" where
  "stages_rows obj_id obj_name obj_uin [] = Inr []"
| "stages_rows obj_id obj_name obj_uin (stage # stages) =
     (case stage_rows obj_id obj_name obj_uin stage of
        Inl e \<Rightarrow> Inl e
      | Inr rows \<Rightarrow>
          (case stages_rows obj_id obj_name obj_uin stages of
             Inl e \<Rightarrow> Inl e
           | Inr rest_rows \<Rightarrow> Inr (rows @ rest_rows)))"

definition extract_rows :: "py \<Rightarrow> exn + row list" where
  "extract_rows data =
     (case py_get data ''object'' (PDict []) of
        Inl e \<Rightarrow> Inl e
      | Inr ob \<Rightarrow>
          (case py_get ob ''id'' PNone of
             Inl e \<Rightarrow> Inl e
           | Inr obj_id \<Rightarrow>
               (case py_get ob ''name'' PNone of
                  Inl e \<Rightarrow> Inl e
                | Inr obj_name \<Rightarrow>
                    (case py_get ob ''uin'' PNone of
                       Inl e \<Rightarrow> Inl e
                     | Inr obj_uin \<Rightarrow>
                         (case py_get data ''constructionStagesData'' (PList []) of
                            Inl e \<Rightarrow> Inl e
                          | Inr stages \<Rightarrow>
                              (case py_iter stages of
                                 Inl e \<Rightarrow> Inl e
                               | Inr ss \<Rightarrow> stages_rows obj_id obj_name obj_uin ss))))))"

text \<open>
  The loop of the main block over the catalog ids, from the dashboard's answer for each id
  in turn: \<^verbatim>\<open>all_rows.extend(extract_rows(get_dashboard_data(value)))\<close>, with no handler
  around it, so an exception ends the run before the export is written.
\<close>

fun plan_fact_loop :: "response list \<Rightarrow> exn + row list" where
  "plan_fact_loop [] = Inr []"
| "plan_fact_loop (r # rs) =
     (case extract_rows (get_dashboard_data r) of
        Inl e \<Rightarrow> Inl e
      | Inr rows \<Rightarrow>
          (case plan_fact_loop rs of
             Inl e \<Rightarrow> Inl e
           | Inr rest_rows \<Rightarrow> Inr (rows @ rest_rows)))"

section \<open>Theorems\<close>

text \<open>
  C10: \<^verbatim>\<open>get_catalog_objects\<close> returns the empty list on every response whose status is
  not 200; on a 200 response whose body is not valid JSON it raises (the decode error is not
  caught), where \<^verbatim>\<open>get_json\<close> returns \<^verbatim>\<open>None\<close> for the same response.
\<close>

theorem catalog_objects_soft_failure_and_unguarded_decode:
  "(status_code r \<noteq> 200 \<longrightarrow> get_catalog_objects r = Inr (PList [])) \<and>
   (status_code r = 200 \<and> json r = None \<longrightarrow>
      get_catalog_objects r = Inl JSONDecodeError \<and> get_json r = PNone)"
  by (simp add: get_catalog_objects_def get_json_def)

theorem catalog_objects_soft_failure_and_unguarded_decode_witness:
  "get_catalog_objects \<lparr>status_code = 503, json = None\<rparr> = Inr (PList []) \<and>
   get_catalog_objects \<lparr>status_code = 200, json = None\<rparr> = Inl JSONDecodeError \<and>
   get_json \<lparr>status_code = 200, json = None\<rparr> = PNone"
  using catalog_objects_soft_failure_and_unguarded_decode [of "\<lparr>status_code = 503, json = None\<rparr>"]
        catalog_objects_soft_failure_and_unguarded_decode [of "\<lparr>status_code = 200, json = None\<rparr>"]
  by simp

subsection \<open>Authorization and request headers\<close>

lemma sublist_trans3: "sublist a b \<Longrightarrow> sublist b c \<Longrightarrow> sublist a c"
  using sublist_order.order_trans by blast

lemma sublist_after_scheme: "sublist (after_scheme u) u"
  by (simp add: after_scheme_def Let_def)

lemma sublist_url_netloc: "sublist (url_netloc u) u"
proof -
  have "sublist (url_netloc u) (after_scheme u)"
    unfolding url_netloc_def Let_def
    by (auto intro: sublist_trans3 [OF sublist_takeWhile sublist_drop])
  then show ?thesis
    using sublist_after_scheme sublist_trans3 by blast
qed

lemma sublist_rev_takeWhile_rev: "sublist (rev (takeWhile P (rev xs))) xs"
proof -
  have "suffix (rev (takeWhile P (rev xs))) xs"
    by (metis rev_rev_ident suffix_to_prefix takeWhile_is_prefix)
  then show ?thesis by (rule suffix_imp_sublist)
qed

lemma sublist_tail: "sublist (tl xs) xs"
  by (cases xs) (simp_all add: sublist_Cons_right)

text \<open>The host is a piece of the URL: a check that finds the domain nowhere in the URL
  cannot have been given a URL with that host.\<close>

lemma sublist_url_host: "sublist (url_host u) u"
proof -
  let ?hi = "rev (takeWhile (\<lambda>c. c \<noteq> CHR ''@'') (rev (url_netloc u)))"
  have hi: "sublist ?hi u"
    using sublist_rev_takeWhile_rev sublist_url_netloc sublist_trans3 by blast
  have "sublist (url_host u) ?hi"
    unfolding url_host_def Let_def
    by (auto intro: sublist_trans3 [OF sublist_takeWhile] sublist_trans3 [OF sublist_tail] sublist_dropWhile)
  then show ?thesis using hi sublist_trans3 by blast
qed

lemma unquote_Nil_iff: "unquote s = [] \<longleftrightarrow> s = []"
  by (induction s rule: unquote.induct) (auto split: option.splits)

lemma unquote_plus_Nil_iff: "unquote_plus s = [] \<longleftrightarrow> s = []"
  by (simp add: unquote_plus_def unquote_Nil_iff)

lemma parse_field_value_nonempty: "parse_field nv = Some (k, v) \<Longrightarrow> v \<noteq> []"
  by (auto simp: parse_field_def Let_def unquote_plus_Nil_iff split: if_splits)

lemma map_of_map_filter_value:
  "map_of (List.map_filter f xs) k = Some v \<Longrightarrow> \<exists>x \<in> set xs. f x = Some (k, v)"
  by (induction xs) (auto simp: List.map_filter_simps split: option.splits if_splits)

text \<open>\<^verbatim>\<open>parse_qs\<close> drops blank values, so the value \<^verbatim>\<open>authorize\<close> reads is never
  empty: the test \<^verbatim>\<open>if not token_param\<close> fails exactly on \<^verbatim>\<open>None\<close>.\<close>

lemma token_param_nonempty: "token_param u = Some v \<Longrightarrow> v \<noteq> []"
  unfolding token_param_def parse_qsl_def
  using map_of_map_filter_value parse_field_value_nonempty by fastforce

lemma authorize_tokens_truthy:
  assumes "authorize u ck init_client = Inr c"
  shows "(\<exists>t. token c = Some t \<and> t \<noteq> []) \<and> (\<forall>x. xsrf_token c = Some x \<longrightarrow> x \<noteq> [])"
  using assms token_param_nonempty [of u]
  by (auto simp: authorize_def init_client_def unquote_Nil_iff unquote_plus_Nil_iff
           split: option.splits if_splits)

text \<open>
  C1 (as amended): the success check of \<^verbatim>\<open>authorize\<close> is a substring test on the whole
  final URL. \<^verbatim>\<open>authorize\<close> raises the authorization error exactly when the text
  \<open>dashboard-stroi.mos.ru\<close> occurs nowhere in the URL; every URL whose host is that
  domain passes the check.
\<close>

theorem authorize_substring_check:
  "(authorize u ck c = Inl AuthFailed \<longleftrightarrow> \<not> py_in_str target_domain u) \<and>
   (url_host u = target_domain \<longrightarrow> authorize u ck c \<noteq> Inl AuthFailed)"
proof -
  have a: "authorize u ck c = Inl AuthFailed \<longleftrightarrow> \<not> py_in_str target_domain u"
    by (simp add: authorize_def split: option.splits)
  have "url_host u = target_domain \<Longrightarrow> py_in_str target_domain u"
    using sublist_url_host [of u] by (simp add: py_in_str_def)
  with a show ?thesis by blast
qed

theorem authorize_substring_check_witness:
  "url_host ''https://dashboard-stroi.mos.ru/oauth/login-internal?token=12%7Cabc'' = target_domain \<and>
   authorize ''https://dashboard-stroi.mos.ru/oauth/login-internal?token=12%7Cabc'' None init_client
     \<noteq> Inl AuthFailed \<and>
   \<not> py_in_str target_domain ''https://sudir.mos.ru/blitz/login/methods/password'' \<and>
   authorize ''https://sudir.mos.ru/blitz/login/methods/password'' None init_client = Inl AuthFailed"
proof -
  have h: "url_host ''https://dashboard-stroi.mos.ru/oauth/login-internal?token=12%7Cabc'' = target_domain"
    by code_simp
  have n: "\<not> py_in_str target_domain ''https://sudir.mos.ru/blitz/login/methods/password''"
    by code_simp
  have p: "authorize ''https://dashboard-stroi.mos.ru/oauth/login-internal?token=12%7Cabc'' None init_client
             \<noteq> Inl AuthFailed"
    using h authorize_substring_check [of "''https://dashboard-stroi.mos.ru/oauth/login-internal?token=12%7Cabc''" None init_client]
    by blast
  have f: "authorize ''https://sudir.mos.ru/blitz/login/methods/password'' None init_client = Inl AuthFailed"
    using n authorize_substring_check [of "''https://sudir.mos.ru/blitz/login/methods/password''" None init_client]
    by blast
  show ?thesis using h n p f by blast
qed

text \<open>
  The claim as stated fails: the final URL below has the host \<open>sudir.mos.ru\<close>, not the
  target domain, and \<^verbatim>\<open>authorize\<close> succeeds on it, because the domain stands in its
  query.
\<close>

theorem authorize_host_counterexample:
  "url_host ''https://sudir.mos.ru/blitz/login?bo=dashboard-stroi.mos.ru&token=abc'' = ''sudir.mos.ru'' \<and>
   ''sudir.mos.ru'' \<noteq> target_domain \<and>
   authorize ''https://sudir.mos.ru/blitz/login?bo=dashboard-stroi.mos.ru&token=abc'' None init_client
     = Inr \<lparr>token = Some ''abc'', xsrf_token = None\<rparr>"
  by code_simp



text \<open>
  C7: a client that \<^verbatim>\<open>authorize\<close> has returned from attaches the bearer header to every
  request of \<^verbatim>\<open>get\<close> and \<^verbatim>\<open>post\<close>, and the CSRF header whenever it holds a CSRF
  token; a client before authorization (both tokens \<^verbatim>\<open>None\<close>) leaves both headers as the
  caller gave them, so adds neither; and the \<open>Accept\<close> and \<open>X-Requested-With\<close> headers
  carry the caller's value when the caller gives one and the default otherwise.
\<close>

theorem session_headers:
  "(authorize u ck init_client = Inr c \<longrightarrow>
      (\<exists>t. token c = Some t \<and>
           headers (get c p h) ''Authorization'' = Some (''Bearer '' @ t) \<and>
           headers (post c p h) ''Authorization'' = Some (''Bearer '' @ t)) \<and>
      (\<forall>x. xsrf_token c = Some x \<longrightarrow>
           headers (get c p h) ''X-XSRF-TOKEN'' = Some x \<and>
           headers (post c p h) ''X-XSRF-TOKEN'' = Some x)) \<and>
   headers (get init_client p h) ''Authorization'' = h ''Authorization'' \<and>
   headers (get init_client p h) ''X-XSRF-TOKEN'' = h ''X-XSRF-TOKEN'' \<and>
   headers (post init_client p h) ''Authorization'' = h ''Authorization'' \<and>
   headers (post init_client p h) ''X-XSRF-TOKEN'' = h ''X-XSRF-TOKEN'' \<and>
   headers (get c p h) ''Accept'' =
     Some (case h ''Accept'' of None \<Rightarrow> ''application/json, text/html, */*'' | Some a \<Rightarrow> a) \<and>
   headers (post c p h) ''Accept'' =
     Some (case h ''Accept'' of None \<Rightarrow> ''application/json'' | Some a \<Rightarrow> a) \<and>
   headers (get c p h) ''X-Requested-With'' =
     Some (case h ''X-Requested-With'' of None \<Rightarrow> ''XMLHttpRequest'' | Some a \<Rightarrow> a) \<and>
   headers (post c p h) ''X-Requested-With'' =
     Some (case h ''X-Requested-With'' of None \<Rightarrow> ''XMLHttpRequest'' | Some a \<Rightarrow> a)"
proof -
  have auth: "authorize u ck init_client = Inr c \<Longrightarrow>
      (\<exists>t. token c = Some t \<and>
           headers (get c p h) ''Authorization'' = Some (''Bearer '' @ t) \<and>
           headers (post c p h) ''Authorization'' = Some (''Bearer '' @ t)) \<and>
      (\<forall>x. xsrf_token c = Some x \<longrightarrow>
           headers (get c p h) ''X-XSRF-TOKEN'' = Some x \<and>
           headers (post c p h) ''X-XSRF-TOKEN'' = Some x)"
    using authorize_tokens_truthy [of u ck c]
    by (auto simp: get_def post_def setdefault_def token_headers_def split: option.splits)
  have before: "headers (get init_client p h) ''Authorization'' = h ''Authorization''"
    "headers (get init_client p h) ''X-XSRF-TOKEN'' = h ''X-XSRF-TOKEN''"
    "headers (post init_client p h) ''Authorization'' = h ''Authorization''"
    "headers (post init_client p h) ''X-XSRF-TOKEN'' = h ''X-XSRF-TOKEN''"
    by (simp_all add: get_def post_def setdefault_def token_headers_def init_client_def
          split: option.splits)
  have dflt: "headers (get c p h) ''Accept'' =
       Some (case h ''Accept'' of None \<Rightarrow> ''application/json, text/html, */*'' | Some a \<Rightarrow> a)"
    "headers (post c p h) ''Accept'' =
       Some (case h ''Accept'' of None \<Rightarrow> ''application/json'' | Some a \<Rightarrow> a)"
    "headers (get c p h) ''X-Requested-With'' =
       Some (case h ''X-Requested-With'' of None \<Rightarrow> ''XMLHttpRequest'' | Some a \<Rightarrow> a)"
    "headers (post c p h) ''X-Requested-With'' =
       Some (case h ''X-Requested-With'' of None \<Rightarrow> ''XMLHttpRequest'' | Some a \<Rightarrow> a)"
    by (simp_all add: get_def post_def setdefault_def token_headers_def split: option.splits)
  show ?thesis using auth before dflt by blast
qed

theorem session_headers_witness:
  "authorize ''https://dashboard-stroi.mos.ru/oauth/login-internal?token=12%7Cabc'' (Some ''x%2By+z'') init_client
     = Inr \<lparr>token = Some ''12|abc'', xsrf_token = Some ''x+y z''\<rparr> \<and>
   headers (get \<lparr>token = Some ''12|abc'', xsrf_token = Some ''x+y z''\<rparr> ''/api/catalog'' Map.empty)
     ''Authorization'' = Some ''Bearer 12|abc'' \<and>
   headers (post \<lparr>token = Some ''12|abc'', xsrf_token = Some ''x+y z''\<rparr> ''/api/catalog'' Map.empty)
     ''X-XSRF-TOKEN'' = Some ''x+y z'' \<and>
   headers (get init_client ''/api/catalog'' Map.empty) ''Authorization'' = None \<and>
   headers (get init_client ''/api/catalog'' Map.empty) ''X-XSRF-TOKEN'' = None \<and>
   headers (get init_client ''/api/catalog'' Map.empty) ''Accept'' = Some ''application/json, text/html, */*''"
proof -
  let ?u = "''https://dashboard-stroi.mos.ru/oauth/login-internal?token=12%7Cabc''"
  let ?c = "\<lparr>token = Some ''12|abc'', xsrf_token = Some ''x+y z''\<rparr>"
  have a: "authorize ?u (Some ''x%2By+z'') init_client = Inr ?c"
    by code_simp
  show ?thesis
    using a session_headers [of ?u "Some ''x%2By+z''" ?c "''/api/catalog''" Map.empty]
          session_headers [of ?u "Some ''x%2By+z''" init_client "''/api/catalog''" Map.empty]
    by simp
qed

subsection \<open>Manager name\<close>

text \<open>Where the dashboard document is there and has no manager object, or the manager
  object has no name, the result is the sentinel.\<close>

lemma manager_name_sentinel:
  assumes "status_code r = 200" and "json r = Some (PDict kvs)"
    and "map_of kvs ''object'' = Some (PDict ob)"
    and "map_of ob ''project_manager'' = None \<or>
         (\<exists>pm. map_of ob ''project_manager'' = Some (PDict pm) \<and> map_of pm ''name'' = None)"
  shows "get_manager_name r = PStr no_data"
  using assms by (auto simp: get_manager_name_def)

lemma manager_name_not_200: "status_code r \<noteq> 200 \<Longrightarrow> get_manager_name r = PNone"
  by (simp add: get_manager_name_def)

text \<open>
  C8: the claim is that \<^verbatim>\<open>get_manager_name\<close> never returns \<^verbatim>\<open>None\<close>. The code returns
  \<^verbatim>\<open>None\<close> on a response whose status is not 200, on a body that does not decode, and
  when the manager entry of the document is \<^verbatim>\<open>null\<close>.
\<close>

theorem manager_name_none_on_failure:
  "get_manager_name \<lparr>status_code = 500, json = None\<rparr> = PNone \<and>
   get_manager_name \<lparr>status_code = 200, json = None\<rparr> = PNone \<and>
   get_manager_name
     \<lparr>status_code = 200,
      json = Some (PDict [(''object'', PDict [(''project_manager'', PNone)])])\<rparr> = PNone"
  by (simp add: get_manager_name_def)

subsection \<open>Retry of the control-point request\<close>








subsection \<open>Overdue flag\<close>

lemma length_is_exceeded: "length (is_exceeded df) = length df"
  by (simp add: is_exceeded_def np_where_def series_eq_def series_le_def)

lemma is_exceeded_nth:
  assumes "i < length df"
  shows "is_exceeded df ! i =
           (if status (df ! i) = ''no_control_points'' then True
            else if (case plan_finish_date (df ! i) of
                       None \<Rightarrow> False
                     | Some a \<Rightarrow> (case fact_finish_date (df ! i) of
                                    None \<Rightarrow> False | Some b \<Rightarrow> a = b))
                 then False
                 else (case plan_finish_date (df ! i) of
                         None \<Rightarrow> False | Some a \<Rightarrow> a \<le> today (df ! i)))"
  using assms
  by (simp add: is_exceeded_def np_where_def series_eq_def series_le_def split: option.splits)

text \<open>
  C2: a row with status \<open>no_control_points\<close> is overdue whatever its dates; any other
  row is overdue iff its planned finish date differs from its actual finish date and is a
  date on or before today. (A missing planned date is on or before no day; a missing
  actual date differs from every planned date.)
\<close>

theorem is_exceeded_rule:
  assumes "i < length df"
  shows "is_exceeded df ! i =
           (if status (df ! i) = ''no_control_points'' then True
            else (plan_finish_date (df ! i) \<noteq> fact_finish_date (df ! i) \<and>
                  (\<exists>p. plan_finish_date (df ! i) = Some p \<and> p \<le> today (df ! i))))"
  using is_exceeded_nth [OF assms] by (auto split: option.splits)

theorem is_exceeded_rule_witness:
  "is_exceeded
     [\<lparr>object_id = PInt 7, status = ''no_control_points'', name = PNone,
       plan_finish_date = None, fact_finish_date = None, today = 739000, suid_url = PNone,
       control_point_comparsion = None, suid_start = PNone, suid_end = PNone,
       fact_end_date_suid = PNone\<rparr>,
      \<lparr>object_id = PInt 8, status = ''in_progress'', name = PStr ''Roof'',
       plan_finish_date = Some 738990, fact_finish_date = None, today = 739000,
       suid_url = PNone, control_point_comparsion = None, suid_start = PNone,
       suid_end = PNone, fact_end_date_suid = PNone\<rparr>,
      \<lparr>object_id = PInt 8, status = ''complete'', name = PStr ''Walls'',
       plan_finish_date = Some 738990, fact_finish_date = Some 738990, today = 739000,
       suid_url = PNone, control_point_comparsion = None, suid_start = PNone,
       suid_end = PNone, fact_end_date_suid = PNone\<rparr>,
      \<lparr>object_id = PInt 8, status = ''in_progress'', name = PStr ''Windows'',
       plan_finish_date = Some 739010, fact_finish_date = None, today = 739000,
       suid_url = PNone, control_point_comparsion = None, suid_start = PNone,
       suid_end = PNone, fact_end_date_suid = PNone\<rparr>]
   = [True, True, False, False]"
proof -
  let ?r0 = "\<lparr>object_id = PInt 7, status = ''no_control_points'', name = PNone,
       plan_finish_date = None, fact_finish_date = None, today = 739000, suid_url = PNone,
       control_point_comparsion = None, suid_start = PNone, suid_end = PNone,
       fact_end_date_suid = PNone\<rparr>"
  let ?r1 = "\<lparr>object_id = PInt 8, status = ''in_progress'', name = PStr ''Roof'',
       plan_finish_date = Some 738990, fact_finish_date = None, today = 739000,
       suid_url = PNone, control_point_comparsion = None, suid_start = PNone,
       suid_end = PNone, fact_end_date_suid = PNone\<rparr>"
  let ?r2 = "\<lparr>object_id = PInt 8, status = ''complete'', name = PStr ''Walls'',
       plan_finish_date = Some 738990, fact_finish_date = Some 738990, today = 739000,
       suid_url = PNone, control_point_comparsion = None, suid_start = PNone,
       suid_end = PNone, fact_end_date_suid = PNone\<rparr>"
  let ?r3 = "\<lparr>object_id = PInt 8, status = ''in_progress'', name = PStr ''Windows'',
       plan_finish_date = Some 739010, fact_finish_date = None, today = 739000,
       suid_url = PNone, control_point_comparsion = None, suid_start = PNone,
       suid_end = PNone, fact_end_date_suid = PNone\<rparr>"
  let ?df = "[?r0, ?r1, ?r2, ?r3]"
  have n: "length (is_exceeded ?df) = 4"
    by (simp add: length_is_exceeded)
  have e0: "is_exceeded ?df ! 0 = True"
    using is_exceeded_rule [of 0 ?df] by simp
  have e1: "is_exceeded ?df ! 1 = True"
    using is_exceeded_rule [of 1 ?df] by simp
  have e2: "is_exceeded ?df ! 2 = False"
    using is_exceeded_rule [of 2 ?df] by simp
  have e3: "is_exceeded ?df ! 3 = False"
    using is_exceeded_rule [of 3 ?df] by simp
  have "is_exceeded ?df = [is_exceeded ?df ! 0, is_exceeded ?df ! 1, is_exceeded ?df ! 2, is_exceeded ?df ! 3]"
    using n by (intro nth_equalityI) (auto simp: nth_Cons' less_Suc_eq numeral_eq_Suc)
  then show ?thesis using e0 e1 e2 e3 by simp
qed

subsection \<open>Name matching against the work ledger\<close>







subsection \<open>Photo status\<close>














subsection \<open>Plan/fact export\<close>

lemma extract_rows_None: "extract_rows PNone = Inl AttributeError"
  by (simp add: extract_rows_def)

text \<open>A dashboard request that fails for one object ends the whole loop, whatever the
  objects after it would have given.\<close>

lemma plan_fact_loop_aborts:
  assumes "status_code r \<noteq> 200 \<or> json r = None"
  shows "plan_fact_loop (r # rs) = Inl AttributeError"
  using assms by (auto simp: get_dashboard_data_def extract_rows_None)

text \<open>
  C9: the claim is that a failed dashboard request for one object counts as "no data" and
  the run goes on. In \<^verbatim>\<open>plan_fact_parser.py\<close> the failed request makes
  \<^verbatim>\<open>get_dashboard_data\<close> return \<^verbatim>\<open>None\<close>, and \<^verbatim>\<open>extract_rows(None)\<close> raises
  \<^verbatim>\<open>AttributeError\<close> outside any handler: with the first of two objects failing, the
  run raises, although the second object alone gives its row.
\<close>

theorem plan_fact_loop_failure_aborts:
  "plan_fact_loop
     [\<lparr>status_code = 500, json = None\<rparr>,
      \<lparr>status_code = 200,
       json = Some (PDict [(''object'', PDict [(''id'', PInt 2), (''name'', PStr ''School''),
                                               (''uin'', PStr ''U2'')]),
                           (''constructionStagesData'',
                             PList [PDict [(''view_name'', PStr ''Walls''),
                                           (''oiv'', PDict [(''fact'', PInt 40), (''plan'', PInt 50)])]])])\<rparr>]
     = Inl AttributeError \<and>
   plan_fact_loop
     [\<lparr>status_code = 200,
       json = Some (PDict [(''object'', PDict [(''id'', PInt 2), (''name'', PStr ''School''),
                                               (''uin'', PStr ''U2'')]),
                           (''constructionStagesData'',
                             PList [PDict [(''view_name'', PStr ''Walls''),
                                           (''oiv'', PDict [(''fact'', PInt 40), (''plan'', PInt 50)])]])])\<rparr>]
     = Inr [[(''id'', PInt 2), (''name'', PStr ''School''), (''uin'', PStr ''U2''),
             (''view_name'', PStr ''Walls''), (''fact'', PInt 40), (''plan'', PInt 50),
             (''fact_delta_week'', PNone), (''fact_delta_month'', PNone),
             (''plan_delta_week'', PNone), (''plan_delta_month'', PNone)]]"
  by code_simp

end
